theory Spec2Isabelle
  imports Complex_Main "HOL-Library.Multiset"
begin

section \<open>LoveCare scoring engine: numeric primitives\<close>

text \<open>
  The engine (\<^verbatim>\<open>backend/app/service/scoring.py\<close>) computes on Python floats. Here a
  float is a \<^typ>\<open>real\<close>: arithmetic is exact, comparisons are those of the reals, and
  there is no NaN and no infinity. Series are lists of reals, \<^verbatim>\<open>sum\<close> is
  \<^const>\<open>sum_list\<close> and \<^verbatim>\<open>len\<close> is \<^const>\<open>length\<close>.
\<close>

definition clamp :: "real \<Rightarrow> real \<Rightarrow> real \<Rightarrow> real" where
  "clamp x lo hi = max lo (min hi x)"

definition mean :: "real list \<Rightarrow> real" where
  "mean xs = (if xs \<noteq> [] then sum_list xs / real (length xs) else 0)"

definition stddev :: "real list \<Rightarrow> real" where
  "stddev xs =
     (if xs = [] then 0
      else let m = mean xs;
               var = sum_list (map (\<lambda>x. (x - m) ^ 2) xs) / real (length xs)
           in sqrt var)"

definition avg_abs_delta :: "real list \<Rightarrow> real" where
  "avg_abs_delta xs =
     (if length xs < 2 then 0
      else sum_list (map (\<lambda>i. \<bar>xs ! i - xs ! (i - 1)\<bar>) [1 ..< length xs])
             / real (length xs - 1))"

text \<open>
  The body of the \<^verbatim>\<open>for t, x in enumerate(xs)\<close> loop of \<^verbatim>\<open>linear_trend_slope\<close>:
  the state is the pair \<open>(num, den)\<close>, \<open>t\<close> is the running index.
\<close>

fun slope_loop :: "real \<Rightarrow> real \<Rightarrow> nat \<Rightarrow> real list \<Rightarrow> real \<times> real \<Rightarrow> real \<times> real" where
  "slope_loop t_mean x_mean t [] (num, den) = (num, den)"
| "slope_loop t_mean x_mean t (x # xs) (num, den) =
     (let dt = real t - t_mean;
          dx = x - x_mean
      in slope_loop t_mean x_mean (Suc t) xs (num + dt * dx, den + dt * dt))"

definition linear_trend_slope :: "real list \<Rightarrow> real" where
  "linear_trend_slope xs =
     (let n = length xs in
      if n < 2 then 0
      else let t_mean = (real n - 1) / 2;
               x_mean = mean xs;
               (num, den) = slope_loop t_mean x_mean 0 xs (0, 0)
           in if den \<noteq> 0 then num / den else 0)"

definition normalize_0_100 :: "real \<Rightarrow> real \<Rightarrow> real \<Rightarrow> real" where
  "normalize_0_100 x x_min x_max =
     (if x_max \<le> x_min then 0
      else clamp ((x - x_min) / (x_max - x_min) * 100) 0 100)"

text \<open>
  Python's \<^verbatim>\<open>round(x, ndigits)\<close>: to the nearest multiple of \<open>10 ^ -ndigits\<close>, a tie
  going to the even neighbour.
\<close>

definition round_half_even :: "real \<Rightarrow> int" where
  "round_half_even r =
     (let f = \<lfloor>r\<rfloor>; d = r - of_int f
      in if d < 1 / 2 then f
         else if 1 / 2 < d then f + 1
         else if even f then f else f + 1)"

definition py_round :: "real \<Rightarrow> nat \<Rightarrow> real" where
  "py_round x ndigits = of_int (round_half_even (x * 10 ^ ndigits)) / 10 ^ ndigits"

subsection \<open>The primitives with every operation that can raise checked\<close>

text \<open>
  The same five primitives once more, this time with the operations that can raise
  written as fallible: \<^verbatim>\<open>a / b\<close> raises \<^verbatim>\<open>ZeroDivisionError\<close> when \<open>b = 0\<close>,
  \<^verbatim>\<open>math.sqrt\<close> raises \<^verbatim>\<open>ValueError\<close> on a negative argument, and the power
  \<^verbatim>\<open>x ** n\<close> of a float raises \<^verbatim>\<open>OverflowError\<close> when the result is beyond the largest
  finite double, \<open>(2^53 - 1) * 2^971\<close>. Float addition, subtraction, multiplication and
  division do not raise on overflow, so they stay unchecked.
\<close>

datatype py_error = ZeroDivisionError | ValueError | KeyError | OverflowError











section \<open>Configuration\<close>

text \<open>The frozen dataclass \<^verbatim>\<open>ScoringConfig\<close> and its default instance.\<close>

record ScoringConfig =
  vol_w_std :: real
  vol_w_jump :: real
  mood_std_min :: real
  mood_std_max :: real
  mood_jump_min :: real
  mood_jump_max :: real
  stress_decay :: real
  risk_w_stress :: real
  risk_w_sleep_deficit :: real
  risk_w_energy_deficit :: real
  risk_w_mood_downtrend :: real
  sleep_target :: real
  risk_raw_min :: real
  risk_raw_max :: real
  green_max :: real
  yellow_max :: real

definition DEFAULT_CFG :: ScoringConfig where
  "DEFAULT_CFG =
     \<lparr> vol_w_std = 6 / 10, vol_w_jump = 4 / 10,
       mood_std_min = 0, mood_std_max = 35 / 10,
       mood_jump_min = 0, mood_jump_max = 4,
       stress_decay = 8 / 10,
       risk_w_stress = 45 / 100, risk_w_sleep_deficit = 20 / 100,
       risk_w_energy_deficit = 25 / 100, risk_w_mood_downtrend = 10 / 100,
       sleep_target = 8,
       risk_raw_min = 0, risk_raw_max = 10,
       green_max = 33, yellow_max = 66 \<rparr>"

section \<open>Core calculations\<close>

subsection \<open>Volatility\<close>

record volatility_result =
  mood_std :: real
  mood_jump :: real
  volatility_score :: real

definition calculate_volatility :: "real list \<Rightarrow> ScoringConfig \<Rightarrow> volatility_result" where
  "calculate_volatility mood cfg =
     (let s = stddev mood;
          j = avg_abs_delta mood;
          s_norm = normalize_0_100 s (mood_std_min cfg) (mood_std_max cfg);
          j_norm = normalize_0_100 j (mood_jump_min cfg) (mood_jump_max cfg);
          score = vol_w_std cfg * s_norm + vol_w_jump cfg * j_norm
      in \<lparr> mood_std = py_round s 4,
           mood_jump = py_round j 4,
           volatility_score = py_round score 2 \<rparr>)"

subsection \<open>Stress accumulation\<close>

record accumulation_result =
  accumulation_curve :: "real list"
  accumulation_trend_slope :: real
  latest_accumulation :: real

text \<open>
  The loop \<^verbatim>\<open>for s in stress: prev = decay * prev + s; curve.append(prev)\<close>, with
  the state \<open>(prev, curve)\<close>; it returns the final \<open>curve\<close>.
\<close>

fun accumulation_loop :: "real \<Rightarrow> real \<Rightarrow> real list \<Rightarrow> real list \<Rightarrow> real list" where
  "accumulation_loop decay prev [] curve = curve"
| "accumulation_loop decay prev (s # stress) curve =
     (let prev' = decay * prev + s
      in accumulation_loop decay prev' stress (curve @ [prev']))"

definition calculate_stress_accumulation :: "real list \<Rightarrow> ScoringConfig \<Rightarrow> accumulation_result" where
  "calculate_stress_accumulation stress cfg =
     (let decay = clamp (stress_decay cfg) 0 (99 / 100);
          curve = accumulation_loop decay 0 stress [];
          slope = linear_trend_slope curve
      in \<lparr> accumulation_curve = map (\<lambda>x. py_round x 3) curve,
           accumulation_trend_slope = py_round slope 4,
           latest_accumulation = (if curve \<noteq> [] then py_round (last curve) 3 else 0) \<rparr>)"

subsection \<open>Burnout risk\<close>

text \<open>
  The local variables of \<^verbatim>\<open>calculate_burnout_risk\<close> up to \<^verbatim>\<open>risk_score\<close>
  (lines 207 to 224 of the source), collected in a record.
\<close>

record risk_components =
  avg_stress :: real
  avg_sleep :: real
  avg_energy :: real
  sleep_deficit :: real
  energy_deficit :: real
  mood_slope :: real
  mood_downtrend :: real
  stress_term :: real
  sleep_term :: real
  energy_term :: real
  mood_term :: real
  risk_raw :: real
  risk_score :: real

definition burnout_components ::
  "real list \<Rightarrow> real list \<Rightarrow> real list \<Rightarrow> real list \<Rightarrow> ScoringConfig \<Rightarrow> risk_components" where
  "burnout_components mood stress sleep energy cfg =
     (let avg_stress' = mean stress;
          avg_sleep' = mean sleep;
          avg_energy' = mean energy;
          sleep_deficit' = max 0 (sleep_target cfg - avg_sleep');
          energy_deficit' = max 0 (10 - avg_energy');
          mood_slope' = linear_trend_slope mood;
          mood_downtrend' = max 0 (- mood_slope');
          stress_term' = risk_w_stress cfg * avg_stress';
          sleep_term' = risk_w_sleep_deficit cfg * (sleep_deficit' * 2);
          energy_term' = risk_w_energy_deficit cfg * (energy_deficit' / 2);
          mood_term' = risk_w_mood_downtrend cfg * (mood_downtrend' * 5);
          risk_raw' = stress_term' + sleep_term' + energy_term' + mood_term';
          risk_score' = normalize_0_100 risk_raw' (risk_raw_min cfg) (risk_raw_max cfg)
      in \<lparr> avg_stress = avg_stress', avg_sleep = avg_sleep', avg_energy = avg_energy',
           sleep_deficit = sleep_deficit', energy_deficit = energy_deficit',
           mood_slope = mood_slope', mood_downtrend = mood_downtrend',
           stress_term = stress_term', sleep_term = sleep_term',
           energy_term = energy_term', mood_term = mood_term',
           risk_raw = risk_raw', risk_score = risk_score' \<rparr>)"

text \<open>The \<^verbatim>\<open>if\<close>/\<^verbatim>\<open>elif\<close>/\<^verbatim>\<open>else\<close> that assigns the label (lines 226 to 231).\<close>

definition risk_label :: "ScoringConfig \<Rightarrow> real \<Rightarrow> string" where
  "risk_label cfg score =
     (if score \<le> green_max cfg then ''Green''
      else if score \<le> yellow_max cfg then ''Yellow''
      else ''Red'')"

text \<open>A candidate reason is the tuple \<open>(name, contribution, message)\<close>.\<close>

type_synonym candidate = "string \<times> real \<times> string"

definition cand_name :: "candidate \<Rightarrow> string" where
  "cand_name c = fst c"

definition cand_contribution :: "candidate \<Rightarrow> real" where
  "cand_contribution c = fst (snd c)"

definition cand_message :: "candidate \<Rightarrow> string" where
  "cand_message c = snd (snd c)"

definition stress_gate :: "risk_components \<Rightarrow> candidate list" where
  "stress_gate c =
     (if 7 \<le> avg_stress c then
        [(''stress'', stress_term c, ''High average stress over the past week.'')]
      else if 55 / 10 \<le> avg_stress c then
        [(''stress'', stress_term c, ''Moderate stress levels have been persistent.'')]
      else [])"

definition sleep_gate :: "risk_components \<Rightarrow> candidate list" where
  "sleep_gate c =
     (if 2 \<le> sleep_deficit c then
        [(''sleep'', sleep_term c, ''Significant sleep deficit compared to the 8-hour target.'')]
      else if 1 \<le> sleep_deficit c then
        [(''sleep'', sleep_term c, ''Not consistently meeting the 8-hour sleep target.'')]
      else [])"

definition energy_gate :: "risk_components \<Rightarrow> candidate list" where
  "energy_gate c =
     (if 4 \<le> energy_deficit c then
        [(''energy'', energy_term c, ''Low energy levels on average.'')]
      else if 2 \<le> energy_deficit c then
        [(''energy'', energy_term c, ''Energy levels have been slightly below ideal.'')]
      else [])"

definition mood_gate :: "risk_components \<Rightarrow> candidate list" where
  "mood_gate c =
     (if 35 / 100 \<le> mood_downtrend c then
        [(''mood'', mood_term c, ''Mood has been trending downward across the week.'')]
      else if 20 / 100 \<le> mood_downtrend c then
        [(''mood'', mood_term c, ''Slight downward mood trend detected.'')]
      else [])"

text \<open>
  The list \<^verbatim>\<open>candidates\<close> after the four gates (lines 234 to 258): each gate appends
  at most one tuple, in the order stress, sleep, energy, mood.
\<close>

definition gate_candidates :: "risk_components \<Rightarrow> candidate list" where
  "gate_candidates c = stress_gate c @ sleep_gate c @ energy_gate c @ mood_gate c"

text \<open>
  \<^verbatim>\<open>candidates.sort(key=lambda x: x[1], reverse=True)\<close>. Python's sort is stable, and
  with \<^verbatim>\<open>reverse=True\<close> it reverses the list, sorts it stably in ascending order and
  reverses the result, so that equal keys keep their original order.
\<close>

definition sort_reverse :: "candidate list \<Rightarrow> candidate list" where
  "sort_reverse cs = rev (sort_key cand_contribution (rev cs))"

definition fallback_reason :: string where
  "fallback_reason = ''Overall indicators look stable this week.''"

text \<open>
  Lines 262 to 265: \<^verbatim>\<open>candidates[:max(0, int(max_reasons))]\<close>, the messages of the
  slice, and the fallback when the list of messages is empty.
\<close>

definition select_reasons :: "int \<Rightarrow> candidate list \<Rightarrow> string list" where
  "select_reasons max_reasons sorted_cands =
     (let reasons = map cand_message (take (nat (max 0 max_reasons)) sorted_cands)
      in if reasons = [] then [fallback_reason] else reasons)"

record contributions_debug =
  dbg_stress :: real
  dbg_sleep :: real
  dbg_energy :: real
  dbg_mood :: real

record debug_components =
  dbg_avg_stress :: real
  dbg_avg_sleep :: real
  dbg_avg_energy :: real
  dbg_sleep_deficit :: real
  dbg_energy_deficit :: real
  dbg_mood_slope :: real
  dbg_mood_downtrend :: real
  dbg_risk_raw :: real
  dbg_contributions :: contributions_debug

definition debug_payload :: "risk_components \<Rightarrow> debug_components" where
  "debug_payload c =
     \<lparr> dbg_avg_stress = py_round (avg_stress c) 2,
       dbg_avg_sleep = py_round (avg_sleep c) 2,
       dbg_avg_energy = py_round (avg_energy c) 2,
       dbg_sleep_deficit = py_round (sleep_deficit c) 2,
       dbg_energy_deficit = py_round (energy_deficit c) 2,
       dbg_mood_slope = py_round (mood_slope c) 4,
       dbg_mood_downtrend = py_round (mood_downtrend c) 4,
       dbg_risk_raw = py_round (risk_raw c) 4,
       dbg_contributions =
         \<lparr> dbg_stress = py_round (stress_term c) 4,
           dbg_sleep = py_round (sleep_term c) 4,
           dbg_energy = py_round (energy_term c) 4,
           dbg_mood = py_round (mood_term c) 4 \<rparr> \<rparr>"

record burnout_result =
  burnout_risk_score :: real
  burnout_risk_label :: string
  burnout_reasons :: "string list"
  components_debug :: "debug_components option"

definition calculate_burnout_risk ::
  "real list \<Rightarrow> real list \<Rightarrow> real list \<Rightarrow> real list \<Rightarrow> ScoringConfig \<Rightarrow> int \<Rightarrow> bool
     \<Rightarrow> burnout_result" where
  "calculate_burnout_risk mood stress sleep energy cfg max_reasons debug =
     (let c = burnout_components mood stress sleep energy cfg;
          label = risk_label cfg (risk_score c);
          candidates = sort_reverse (gate_candidates c);
          reasons = select_reasons max_reasons candidates
      in \<lparr> burnout_risk_score = py_round (risk_score c) 2,
           burnout_risk_label = label,
           burnout_reasons = reasons,
           components_debug = (if debug then Some (debug_payload c) else None) \<rparr>)"

subsection \<open>Emotional battery\<close>

definition calculate_emotional_battery :: "real list \<Rightarrow> real list \<Rightarrow> real" where
  "calculate_emotional_battery stress energy =
     (let s = mean stress;
          e = mean energy;
          battery = 100 - (6 / 10 * s + 4 / 10 * (10 - e)) * 10
      in py_round (clamp battery 0 100) 2)"

subsection \<open>The report\<close>

record report_metrics =
  volatility :: volatility_result
  stress_accumulation :: accumulation_result
  burnout_risk :: burnout_result
  emotional_battery :: real

record report =
  metrics :: report_metrics
  disclaimer :: string

text \<open>
  The input mapping is a dictionary from key to series; \<^verbatim>\<open>data["mood"]\<close> raises
  \<^verbatim>\<open>KeyError\<close> when the key is missing. The keys are read in the order mood, stress,
  sleep, energy. \<^verbatim>\<open>calculate_burnout_risk\<close> is called with its default
  \<^verbatim>\<open>max_reasons = 3\<close> and \<^verbatim>\<open>debug = False\<close>.
\<close>

definition lookup :: "(string \<rightharpoonup> real list) \<Rightarrow> string \<Rightarrow> py_error + real list" where
  "lookup data k = (case data k of None \<Rightarrow> Inl KeyError | Some v \<Rightarrow> Inr v)"

definition generate_report :: "(string \<rightharpoonup> real list) \<Rightarrow> ScoringConfig \<Rightarrow> py_error + report" where
  "generate_report data cfg =
     (case lookup data ''mood'' of Inl e \<Rightarrow> Inl e | Inr mood \<Rightarrow>
      case lookup data ''stress'' of Inl e \<Rightarrow> Inl e | Inr stress \<Rightarrow>
      case lookup data ''sleep'' of Inl e \<Rightarrow> Inl e | Inr sleep \<Rightarrow>
      case lookup data ''energy'' of Inl e \<Rightarrow> Inl e | Inr energy \<Rightarrow>
        (let volatility' = calculate_volatility mood cfg;
             accumulation = calculate_stress_accumulation stress cfg;
             burnout = calculate_burnout_risk mood stress sleep energy cfg 3 False;
             battery = calculate_emotional_battery stress energy
         in Inr \<lparr> metrics = \<lparr> volatility = volatility',
                               stress_accumulation = accumulation,
                               burnout_risk = burnout,
                               emotional_battery = battery \<rparr>,
                   disclaimer = ''Wellness insights only. Not medical diagnosis.'' \<rparr>))"

section \<open>The HTTP layer: the endpoint /analysis/calculate\<close>

text \<open>
  \<^verbatim>\<open>main.py\<close>. The request schemas and the two tables are records; the fields of a
  daily log carry the prefix \<open>log_\<close>, those of a stored row the prefix \<open>row_\<close>. The
  columns \<^verbatim>\<open>id\<close> and \<^verbatim>\<open>created_at\<close>, which the database fills in, are left out. The
  session is the pair of tables; \<^verbatim>\<open>db.add\<close> appends a row. An \<^verbatim>\<open>HTTPException\<close>
  is an error value. Integer fields are \<^typ>\<open>int\<close> and enter the arithmetic through
  \<^const>\<open>real_of_int\<close>.
\<close>

record DailyLogSchema =
  log_day :: int
  log_mood :: int
  log_stress :: int
  log_energy :: int
  log_sleep :: real
  log_reflection :: string

record AnalysisRequest =
  req_email :: string
  req_logs :: "DailyLogSchema list"

record MoodLog =
  row_user_email :: string
  row_day :: int
  row_mood :: int
  row_stress :: int
  row_energy :: int
  row_sleep :: real
  row_note :: string

record User =
  user_email :: string
  user_password_hash :: string

record database =
  users :: "User list"
  mood_logs :: "MoodLog list"

datatype http_error = HTTPException int string

record analysis_response =
  volatilityScore :: real
  stressAccumulation :: "real list"
  burnoutLikelihood :: real
  riskLevel :: string
  emotionalBattery :: real
  loveStressBalance :: real

text \<open>The loop that saves the logs: one \<^verbatim>\<open>MoodLog\<close> row per log, in order.\<close>

fun save_logs :: "string \<Rightarrow> DailyLogSchema list \<Rightarrow> database \<Rightarrow> database" where
  "save_logs email [] db = db"
| "save_logs email (l # logs) db =
     save_logs email logs
       (db \<lparr> mood_logs := mood_logs db @
          [\<lparr> row_user_email = email, row_day = log_day l, row_mood = log_mood l,
             row_stress = log_stress l, row_energy = log_energy l,
             row_sleep = log_sleep l, row_note = log_reflection l \<rparr>] \<rparr>)"

text \<open>
  The loop \<^verbatim>\<open>for i in range(1, len(moods)): jumps += abs(moods[i] - moods[i - 1])\<close>.
\<close>

definition jumps_loop :: "real list \<Rightarrow> real" where
  "jumps_loop moods =
     fold (\<lambda>i jumps. jumps + \<bar>moods ! i - moods ! (i - 1)\<bar>) [1 ..< length moods] 0"

text \<open>
  The loop \<^verbatim>\<open>for l in logs: curr = (0.8 * curr) + l.stress;
  accumulation.append(round(curr, 2))\<close>; the variable \<^verbatim>\<open>curr\<close> is \<open>cur\<close> here.
\<close>

fun api_accumulation_loop :: "real \<Rightarrow> DailyLogSchema list \<Rightarrow> real list \<Rightarrow> real list" where
  "api_accumulation_loop cur [] accumulation = accumulation"
| "api_accumulation_loop cur (l # logs) accumulation =
     (let cur' = 8 / 10 * cur + real_of_int (log_stress l)
      in api_accumulation_loop cur' logs (accumulation @ [py_round cur' 2]))"

definition calculate_metrics ::
  "AnalysisRequest \<Rightarrow> database \<Rightarrow> http_error + analysis_response \<times> database" where
  "calculate_metrics req db =
     (let logs = req_logs req in
      if length logs < 2 then Inl (HTTPException 400 ''Insufficient data'')
      else if find (\<lambda>u. user_email u = req_email req) (users db) = None then
        Inl (HTTPException 401 ''User not registered. Please register first.'')
      else
        let db' = save_logs (req_email req) logs db;
            moods = map (\<lambda>l. real_of_int (log_mood l)) logs;
            mean_mood = sum_list moods / real (length moods);
            variance = sum_list (map (\<lambda>x. (x - mean_mood) ^ 2) moods) / real (length moods);
            std_dev = sqrt variance;
            jumps = jumps_loop moods;
            avg_jump = jumps / real (length moods - 1);
            volatility' = min 100 (std_dev * 15 + avg_jump * 10);
            accumulation = api_accumulation_loop 0 logs [];
            avg_stress' = sum_list (map (\<lambda>l. real_of_int (log_stress l)) logs)
                            / real (length logs);
            avg_sleep' = sum_list (map log_sleep logs) / real (length logs);
            avg_energy' = sum_list (map (\<lambda>l. real_of_int (log_energy l)) logs)
                            / real (length logs);
            sleep_deficit' = max 0 (8 - avg_sleep') / 8;
            energy_depletion = (10 - avg_energy') / 10;
            burnout = min 100 (avg_stress' * 8 + sleep_deficit' * 20 + energy_depletion * 20);
            battery = min 100 (avg_energy' * 5 + avg_sleep' * 5
                               + real_of_int (log_mood (last logs)) * 2);
            balance = min 100 (max 0 (100 - avg_stress' * 7 + mean_mood * 3));
            risk = (if 70 < burnout \<or> (80 < volatility' \<and> 40 < burnout) then ''HIGH_RISK''
                    else if 40 < burnout \<or> 50 < volatility' then ''CAUTION''
                    else ''STABLE'')
        in Inr (\<lparr> volatilityScore = volatility',
                   stressAccumulation = accumulation,
                   burnoutLikelihood = burnout,
                   riskLevel = risk,
                   emotionalBattery = battery,
                   loveStressBalance = balance \<rparr>, db'))"

subsection \<open>The endpoint as a serialization of the engine, in the words of the specification\<close>

text \<open>
  The four series the engine would receive for a request, and the statement that the
  endpoint's volatility, stress accumulation, burnout and battery values are those of
  \<^verbatim>\<open>generate_report\<close> on these series; it is about requests that the endpoint
  accepts.
\<close>

definition request_series :: "AnalysisRequest \<Rightarrow> (string \<rightharpoonup> real list)" where
  "request_series req =
     [''mood'' \<mapsto> map (\<lambda>l. real_of_int (log_mood l)) (req_logs req),
      ''stress'' \<mapsto> map (\<lambda>l. real_of_int (log_stress l)) (req_logs req),
      ''sleep'' \<mapsto> map log_sleep (req_logs req),
      ''energy'' \<mapsto> map (\<lambda>l. real_of_int (log_energy l)) (req_logs req)]"

definition endpoint_serializes_engine :: "AnalysisRequest \<Rightarrow> database \<Rightarrow> bool" where
  "endpoint_serializes_engine req db =
     (case calculate_metrics req db of
        Inl e \<Rightarrow> True
      | Inr (resp, db') \<Rightarrow>
          (case generate_report (request_series req) DEFAULT_CFG of
             Inl e \<Rightarrow> False
           | Inr rep \<Rightarrow>
               volatilityScore resp = volatility_score (volatility (metrics rep))
               \<and> stressAccumulation resp
                   = accumulation_curve (stress_accumulation (metrics rep))
               \<and> burnoutLikelihood resp = burnout_risk_score (burnout_risk (metrics rep))
               \<and> emotionalBattery resp = emotional_battery (metrics rep)))"

subsection \<open>A request for the examples\<close>

text \<open>
  Four days with mood 4, 6, 4, 6, stress 1, energy 5 and 8 hours of sleep, sent by a
  registered user.
\<close>

definition example_log :: "int \<Rightarrow> int \<Rightarrow> DailyLogSchema" where
  "example_log d m =
     \<lparr> log_day = d, log_mood = m, log_stress = 1, log_energy = 5, log_sleep = 8,
       log_reflection = [] \<rparr>"

definition example_request :: AnalysisRequest where
  "example_request =
     \<lparr> req_email = ''a@b.c'',
       req_logs = [example_log 1 4, example_log 2 6, example_log 3 4, example_log 4 6] \<rparr>"

definition example_database :: database where
  "example_database =
     \<lparr> users = [\<lparr> user_email = ''a@b.c'', user_password_hash = [] \<rparr>], mood_logs = [] \<rparr>"

section \<open>Properties of the primitives\<close>








lemma clamp_mono: "x \<le> y \<Longrightarrow> clamp x lo hi \<le> clamp y lo hi"
  by (simp add: clamp_def max_def min_def)

lemma clamp_bounds: "lo \<le> hi \<Longrightarrow> lo \<le> clamp x lo hi \<and> clamp x lo hi \<le> hi"
  by (simp add: clamp_def max_def min_def)

lemma normalize_range: "0 \<le> normalize_0_100 x lo hi \<and> normalize_0_100 x lo hi \<le> 100"
  using clamp_bounds [of 0 100] by (simp add: normalize_0_100_def)

lemma normalize_mono:
  assumes "x \<le> y"
  shows "normalize_0_100 x lo hi \<le> normalize_0_100 y lo hi"
proof (cases "hi \<le> lo")
  case True
  then show ?thesis by (simp add: normalize_0_100_def)
next
  case False
  then have pos: "0 < hi - lo" by simp
  from assms have "(x - lo) / (hi - lo) \<le> (y - lo) / (hi - lo)"
    using pos by (simp add: divide_right_mono)
  then have "(x - lo) / (hi - lo) * 100 \<le> (y - lo) / (hi - lo) * 100"
    by (rule mult_right_mono) simp
  then show ?thesis
    using False by (simp add: normalize_0_100_def clamp_mono)
qed

lemma normalize_below: "lo < hi \<Longrightarrow> x \<le> lo \<Longrightarrow> normalize_0_100 x lo hi = 0"
proof -
  assume lt: "lo < hi" and le: "x \<le> lo"
  have "(x - lo) / (hi - lo) \<le> 0"
    using lt le by (simp add: divide_le_0_iff)
  then have "(x - lo) / (hi - lo) * 100 \<le> 0"
    by (rule mult_nonpos_nonneg) simp
  then show ?thesis
    using lt by (simp add: normalize_0_100_def clamp_def max_def min_def)
qed

lemma normalize_above: "lo < hi \<Longrightarrow> hi \<le> x \<Longrightarrow> normalize_0_100 x lo hi = 100"
proof -
  assume lt: "lo < hi" and le: "hi \<le> x"
  have "1 \<le> (x - lo) / (hi - lo)"
    using lt le by (simp add: le_divide_eq)
  then have "1 * 100 \<le> (x - lo) / (hi - lo) * 100"
    by (rule mult_right_mono) simp
  then have "100 \<le> (x - lo) / (hi - lo) * 100"
    by (simp only: mult_1)
  then show ?thesis
    using lt by (simp add: normalize_0_100_def clamp_def max_def min_def)
qed

lemma normalize_degenerate: "hi \<le> lo \<Longrightarrow> normalize_0_100 x lo hi = 0"
  by (simp add: normalize_0_100_def)

text \<open>
  Claim C5. \<^verbatim>\<open>normalize_0_100(x, lo, hi)\<close> is monotonic non-decreasing in \<open>x\<close> for fixed
  \<open>lo\<close> and \<open>hi\<close>; on a proper range \<open>lo < hi\<close> it maps \<open>lo\<close> to 0 and \<open>hi\<close> to 100,
  every \<open>x \<le> lo\<close> to 0 and every \<open>x \<ge> hi\<close> to 100; and it returns 0 whenever
  \<open>hi \<le> lo\<close>, whatever \<open>x\<close> is.
\<close>

theorem normalize_0_100_spec:
  "(\<forall>x y. x \<le> y \<longrightarrow> normalize_0_100 x lo hi \<le> normalize_0_100 y lo hi)
   \<and> (lo < hi \<longrightarrow> normalize_0_100 lo lo hi = 0 \<and> normalize_0_100 hi lo hi = 100
        \<and> (\<forall>x. x \<le> lo \<longrightarrow> normalize_0_100 x lo hi = 0)
        \<and> (\<forall>x. hi \<le> x \<longrightarrow> normalize_0_100 x lo hi = 100))
   \<and> (hi \<le> lo \<longrightarrow> (\<forall>x. normalize_0_100 x lo hi = 0))"
  using normalize_mono normalize_below normalize_above normalize_degenerate
  by (metis order_refl)

theorem normalize_0_100_spec_witness:
  "normalize_0_100 2 0 10 \<le> normalize_0_100 5 0 10
   \<and> normalize_0_100 0 0 10 = 0 \<and> normalize_0_100 10 0 10 = 100
   \<and> normalize_0_100 (- 1) 0 10 = 0 \<and> normalize_0_100 11 0 10 = 100
   \<and> normalize_0_100 5 3 3 = 0"
proof -
  have "(2::real) \<le> 5" "(0::real) < 10" "(- 1::real) \<le> 0" "(10::real) \<le> 11" "(3::real) \<le> 3"
    by simp_all
  then show ?thesis
    using normalize_0_100_spec [of 0 10] normalize_0_100_spec [of 3 3] by blast
qed




section \<open>Burnout risk: the label\<close>

lemma mean_single: "mean [x] = x"
  by (simp add: mean_def)

lemma slope_single: "linear_trend_slope [x] = 0"
  by (simp add: linear_trend_slope_def)

lemmas eval_components =
  burnout_components_def Let_def mean_single slope_single DEFAULT_CFG_def
  normalize_0_100_def clamp_def gate_candidates_def stress_gate_def sleep_gate_def
  energy_gate_def mood_gate_def

lemma label_of_result:
  "burnout_risk_label (calculate_burnout_risk mood stress sleep energy cfg max_reasons debug)
     = risk_label cfg (risk_score (burnout_components mood stress sleep energy cfg))"
  by (simp add: calculate_burnout_risk_def Let_def)

text \<open>
  Claim C2. The label is a three-way threshold classifier on the normalized risk score
  (the local \<^verbatim>\<open>risk_score\<close>, before it is rounded for output): it is "Green" exactly
  when \<open>risk_score \<le> green_max\<close>, "Yellow" exactly when
  \<open>green_max < risk_score \<le> yellow_max\<close>, and "Red" in every other case. A score equal
  to \<open>green_max\<close> gives "Green"; a score equal to \<open>yellow_max\<close> gives "Yellow" (with
  thresholds in order, \<open>green_max < yellow_max\<close>, as the defaults 33 and 66 are).
\<close>

theorem label_threshold_classifier:
  "(burnout_risk_label (calculate_burnout_risk mood stress sleep energy cfg max_reasons debug) = ''Green''
      \<longleftrightarrow> risk_score (burnout_components mood stress sleep energy cfg) \<le> green_max cfg)
   \<and> (burnout_risk_label (calculate_burnout_risk mood stress sleep energy cfg max_reasons debug) = ''Yellow''
      \<longleftrightarrow> green_max cfg < risk_score (burnout_components mood stress sleep energy cfg)
          \<and> risk_score (burnout_components mood stress sleep energy cfg) \<le> yellow_max cfg)
   \<and> (burnout_risk_label (calculate_burnout_risk mood stress sleep energy cfg max_reasons debug) = ''Red''
      \<longleftrightarrow> \<not> risk_score (burnout_components mood stress sleep energy cfg) \<le> green_max cfg
          \<and> \<not> risk_score (burnout_components mood stress sleep energy cfg) \<le> yellow_max cfg)
   \<and> (risk_score (burnout_components mood stress sleep energy cfg) = green_max cfg
      \<longrightarrow> burnout_risk_label (calculate_burnout_risk mood stress sleep energy cfg max_reasons debug) = ''Green'')
   \<and> (risk_score (burnout_components mood stress sleep energy cfg) = yellow_max cfg
        \<and> green_max cfg < yellow_max cfg
      \<longrightarrow> burnout_risk_label (calculate_burnout_risk mood stress sleep energy cfg max_reasons debug) = ''Yellow'')"
  by (simp add: label_of_result risk_label_def)

lemma score_33: "risk_score (burnout_components [5] [22 / 3] [8] [10] DEFAULT_CFG) = 33"
  by (simp add: burnout_components_def Let_def mean_single slope_single DEFAULT_CFG_def
      normalize_0_100_def clamp_def)

lemma score_66: "risk_score (burnout_components [5] [44 / 3] [8] [10] DEFAULT_CFG) = 66"
  by (simp add: burnout_components_def Let_def mean_single slope_single DEFAULT_CFG_def
      normalize_0_100_def clamp_def)

theorem label_threshold_classifier_witness:
  "burnout_risk_label (calculate_burnout_risk [5] [22 / 3] [8] [10] DEFAULT_CFG 3 False) = ''Green''
   \<and> burnout_risk_label (calculate_burnout_risk [5] [44 / 3] [8] [10] DEFAULT_CFG 3 False) = ''Yellow''"
proof -
  have g: "green_max DEFAULT_CFG = 33" and y: "yellow_max DEFAULT_CFG = 66"
    by (simp_all add: DEFAULT_CFG_def)
  show ?thesis
    using label_threshold_classifier [of "[5]" "[22 / 3]" "[8]" "[10]" DEFAULT_CFG 3 False]
      label_threshold_classifier [of "[5]" "[44 / 3]" "[8]" "[10]" DEFAULT_CFG 3 False]
    by (simp add: score_33 score_66 g y)
qed

section \<open>Burnout risk: the reasons\<close>

lemma reasons_of_result:
  "burnout_reasons (calculate_burnout_risk mood stress sleep energy cfg max_reasons debug)
     = select_reasons max_reasons
         (sort_reverse (gate_candidates (burnout_components mood stress sleep energy cfg)))"
  by (simp add: calculate_burnout_risk_def Let_def)

lemma select_reasons_nonempty: "select_reasons k cs \<noteq> []"
  by (simp add: select_reasons_def Let_def)

lemma select_reasons_fallback:
  "take (nat (max 0 k)) cs = [] \<Longrightarrow> select_reasons k cs = [fallback_reason]"
  by (simp add: select_reasons_def Let_def)

lemma select_reasons_nonpos: "k \<le> 0 \<Longrightarrow> select_reasons k cs = [fallback_reason]"
  by (simp add: select_reasons_def Let_def)

lemma select_reasons_take:
  "0 < k \<Longrightarrow> cs \<noteq> [] \<Longrightarrow> select_reasons k cs = map cand_message (take (nat k) cs)"
  by (cases cs) (simp_all add: select_reasons_def Let_def max_def take_Cons')

lemma select_reasons_length: "0 < k \<Longrightarrow> int (length (select_reasons k cs)) \<le> k"
  by (auto simp: select_reasons_def Let_def min_def)

lemma length_sort_reverse: "length (sort_reverse cs) = length cs"
  by (simp add: sort_reverse_def)

lemma sort_reverse_Nil_iff: "sort_reverse cs = [] \<longleftrightarrow> cs = []"
  using length_sort_reverse [of cs] by (metis length_0_conv)

lemma mset_sort_reverse: "mset (sort_reverse cs) = mset cs"
  by (simp add: sort_reverse_def)

lemma set_sort_reverse: "set (sort_reverse cs) = set cs"
  by (simp add: sort_reverse_def)

lemma sort_reverse_descending:
  "sorted_wrt (\<lambda>a b. cand_contribution b \<le> cand_contribution a) (sort_reverse cs)"
proof -
  have "sorted (map cand_contribution (sort_key cand_contribution (rev cs)))"
    by (rule sorted_sort_key)
  then have "sorted_wrt (\<lambda>a b. cand_contribution a \<le> cand_contribution b)
               (sort_key cand_contribution (rev cs))"
    by (simp only: sorted_map)
  then show ?thesis
    by (simp add: sort_reverse_def sorted_wrt_rev)
qed

lemma sort_reverse_stable:
  "filter (\<lambda>c. cand_contribution c = k) (sort_reverse cs)
     = filter (\<lambda>c. cand_contribution c = k) cs"
proof -
  have "filter (\<lambda>c. cand_contribution c = k) (sort_reverse cs)
          = rev (filter (\<lambda>c. cand_contribution c = k) (sort_key cand_contribution (rev cs)))"
    by (simp add: sort_reverse_def rev_filter)
  also have "\<dots> = rev (filter (\<lambda>c. cand_contribution c = k) (rev cs))"
    by (simp only: sort_key_stable)
  also have "\<dots> = filter (\<lambda>c. cand_contribution c = k) cs"
    by (simp add: rev_filter)
  finally show ?thesis .
qed

lemma gate_lengths:
  "length (stress_gate c) \<le> 1" "length (sleep_gate c) \<le> 1"
  "length (energy_gate c) \<le> 1" "length (mood_gate c) \<le> 1"
  by (simp_all add: stress_gate_def sleep_gate_def energy_gate_def mood_gate_def)

lemma gate_names:
  "\<forall>x\<in>set (stress_gate c). cand_name x = ''stress'' \<and> cand_contribution x = stress_term c"
  "\<forall>x\<in>set (sleep_gate c). cand_name x = ''sleep'' \<and> cand_contribution x = sleep_term c"
  "\<forall>x\<in>set (energy_gate c). cand_name x = ''energy'' \<and> cand_contribution x = energy_term c"
  "\<forall>x\<in>set (mood_gate c). cand_name x = ''mood'' \<and> cand_contribution x = mood_term c"
  by (simp_all add: stress_gate_def sleep_gate_def energy_gate_def mood_gate_def
      cand_name_def cand_contribution_def)

lemma gate_messages:
  "map cand_message (stress_gate c) =
     (if 7 \<le> avg_stress c then [''High average stress over the past week.'']
      else if 55 / 10 \<le> avg_stress c then [''Moderate stress levels have been persistent.'']
      else [])"
  "map cand_message (sleep_gate c) =
     (if 2 \<le> sleep_deficit c then [''Significant sleep deficit compared to the 8-hour target.'']
      else if 1 \<le> sleep_deficit c then [''Not consistently meeting the 8-hour sleep target.'']
      else [])"
  "map cand_message (energy_gate c) =
     (if 4 \<le> energy_deficit c then [''Low energy levels on average.'']
      else if 2 \<le> energy_deficit c then [''Energy levels have been slightly below ideal.'']
      else [])"
  "map cand_message (mood_gate c) =
     (if 35 / 100 \<le> mood_downtrend c then [''Mood has been trending downward across the week.'']
      else if 20 / 100 \<le> mood_downtrend c then [''Slight downward mood trend detected.'']
      else [])"
  by (simp_all add: stress_gate_def sleep_gate_def energy_gate_def mood_gate_def
      cand_message_def)

lemma fallback_not_gate_message:
  "fallback_reason \<notin> set (map cand_message (gate_candidates c))"
  by (simp add: gate_candidates_def gate_messages fallback_reason_def del: set_map)


lemma gate_candidates_by_factor:
  "filter (\<lambda>x. cand_name x = ''stress'') (gate_candidates c) = stress_gate c"
  "filter (\<lambda>x. cand_name x = ''sleep'') (gate_candidates c) = sleep_gate c"
  "filter (\<lambda>x. cand_name x = ''energy'') (gate_candidates c) = energy_gate c"
  "filter (\<lambda>x. cand_name x = ''mood'') (gate_candidates c) = mood_gate c"
  by (simp_all add: gate_candidates_def stress_gate_def sleep_gate_def energy_gate_def
      mood_gate_def cand_name_def)

lemma one_candidate_per_factor:
  "length (filter (\<lambda>x. cand_name x = n) (gate_candidates c)) \<le> 1"
  by (auto simp: gate_candidates_def stress_gate_def sleep_gate_def energy_gate_def
      mood_gate_def cand_name_def)

lemma fallback_iff_no_gate:
  assumes "0 < k"
  shows "fallback_reason \<in> set (select_reasons k (sort_reverse (gate_candidates c)))
           \<longleftrightarrow> gate_candidates c = []"
proof (cases "gate_candidates c = []")
  case True
  then show ?thesis
    by (simp add: select_reasons_def sort_reverse_def)
next
  case False
  then have ne: "sort_reverse (gate_candidates c) \<noteq> []"
    by (simp add: sort_reverse_Nil_iff)
  have "set (take (nat k) (sort_reverse (gate_candidates c))) \<subseteq> set (gate_candidates c)"
    using set_take_subset [of "nat k" "sort_reverse (gate_candidates c)"]
    by (simp add: set_sort_reverse)
  then have "set (select_reasons k (sort_reverse (gate_candidates c)))
               \<subseteq> set (map cand_message (gate_candidates c))"
    using assms ne by (auto simp: select_reasons_take)
  then show ?thesis
    using False fallback_not_gate_message [of c] by blast
qed

text \<open>
  Claim C1 (amended). Each of the four factors contributes at most one candidate, the
  high-threshold message taking precedence over the moderate one. The fired candidates
  are sorted by their weighted term in descending order, candidates with equal terms
  keeping the order stress, sleep, energy, mood. For \<open>max_reasons \<ge> 1\<close> the messages
  of the first \<open>max_reasons\<close> candidates are kept in that order, the list is never longer
  than \<open>max_reasons\<close>, and the fallback message is emitted if and only if no gate fires.
  For \<open>max_reasons \<le> 0\<close> the list is the single fallback message, whether or not a
  gate fired.
\<close>

theorem reason_selection:
  assumes c: "c = burnout_components mood stress sleep energy cfg"
    and s: "sorted_cands = sort_reverse (gate_candidates c)"
    and r: "reasons = burnout_reasons
              (calculate_burnout_risk mood stress sleep energy cfg max_reasons debug)"
  shows
    "gate_candidates c = stress_gate c @ sleep_gate c @ energy_gate c @ mood_gate c
     \<and> length (stress_gate c) \<le> 1 \<and> length (sleep_gate c) \<le> 1
     \<and> length (energy_gate c) \<le> 1 \<and> length (mood_gate c) \<le> 1
     \<and> (\<forall>n. length (filter (\<lambda>x. cand_name x = n) (gate_candidates c)) \<le> 1)
     \<and> (\<forall>x\<in>set (stress_gate c). cand_name x = ''stress'' \<and> cand_contribution x = stress_term c)
     \<and> (\<forall>x\<in>set (sleep_gate c). cand_name x = ''sleep'' \<and> cand_contribution x = sleep_term c)
     \<and> (\<forall>x\<in>set (energy_gate c). cand_name x = ''energy'' \<and> cand_contribution x = energy_term c)
     \<and> (\<forall>x\<in>set (mood_gate c). cand_name x = ''mood'' \<and> cand_contribution x = mood_term c)
     \<and> (7 \<le> avg_stress c \<longrightarrow>
          map cand_message (stress_gate c) = [''High average stress over the past week.''])
     \<and> (2 \<le> sleep_deficit c \<longrightarrow>
          map cand_message (sleep_gate c)
            = [''Significant sleep deficit compared to the 8-hour target.''])
     \<and> (4 \<le> energy_deficit c \<longrightarrow>
          map cand_message (energy_gate c) = [''Low energy levels on average.''])
     \<and> (35 / 100 \<le> mood_downtrend c \<longrightarrow>
          map cand_message (mood_gate c) = [''Mood has been trending downward across the week.''])
     \<and> mset sorted_cands = mset (gate_candidates c)
     \<and> sorted_wrt (\<lambda>a b. cand_contribution b \<le> cand_contribution a) sorted_cands
     \<and> (\<forall>k. filter (\<lambda>x. cand_contribution x = k) sorted_cands
              = filter (\<lambda>x. cand_contribution x = k) (gate_candidates c))
     \<and> (0 < max_reasons \<and> gate_candidates c \<noteq> [] \<longrightarrow>
          reasons = map cand_message (take (nat max_reasons) sorted_cands))
     \<and> (0 < max_reasons \<longrightarrow> int (length reasons) \<le> max_reasons)
     \<and> (0 < max_reasons \<longrightarrow> (fallback_reason \<in> set reasons \<longleftrightarrow> gate_candidates c = []))
     \<and> (gate_candidates c = [] \<longrightarrow> reasons = [fallback_reason])
     \<and> (max_reasons \<le> 0 \<longrightarrow> reasons = [fallback_reason])"
proof -
  have r': "reasons = select_reasons max_reasons sorted_cands"
    by (simp add: r s c reasons_of_result)
  have a: "gate_candidates c = stress_gate c @ sleep_gate c @ energy_gate c @ mood_gate c"
    by (simp add: gate_candidates_def)
  have pf: "\<forall>n. length (filter (\<lambda>x. cand_name x = n) (gate_candidates c)) \<le> 1"
    using one_candidate_per_factor by blast
  have hi:
    "7 \<le> avg_stress c \<longrightarrow>
       map cand_message (stress_gate c) = [''High average stress over the past week.'']"
    "2 \<le> sleep_deficit c \<longrightarrow>
       map cand_message (sleep_gate c)
         = [''Significant sleep deficit compared to the 8-hour target.'']"
    "4 \<le> energy_deficit c \<longrightarrow>
       map cand_message (energy_gate c) = [''Low energy levels on average.'']"
    "35 / 100 \<le> mood_downtrend c \<longrightarrow>
       map cand_message (mood_gate c) = [''Mood has been trending downward across the week.'']"
    by (simp_all add: gate_messages)
  have m: "mset sorted_cands = mset (gate_candidates c)"
    by (simp add: s mset_sort_reverse)
  have d: "sorted_wrt (\<lambda>a b. cand_contribution b \<le> cand_contribution a) sorted_cands"
    by (simp add: s sort_reverse_descending)
  have st: "\<forall>k. filter (\<lambda>x. cand_contribution x = k) sorted_cands
              = filter (\<lambda>x. cand_contribution x = k) (gate_candidates c)"
    by (simp add: s sort_reverse_stable)
  have t: "0 < max_reasons \<and> gate_candidates c \<noteq> [] \<longrightarrow>
          reasons = map cand_message (take (nat max_reasons) sorted_cands)"
    by (simp add: r' s select_reasons_take sort_reverse_Nil_iff)
  have l: "0 < max_reasons \<longrightarrow> int (length reasons) \<le> max_reasons"
    by (simp add: r' select_reasons_length)
  have f: "0 < max_reasons \<longrightarrow> (fallback_reason \<in> set reasons \<longleftrightarrow> gate_candidates c = [])"
    by (simp add: r' s fallback_iff_no_gate)
  have e: "gate_candidates c = [] \<longrightarrow> reasons = [fallback_reason]"
    by (simp add: r' s select_reasons_def sort_reverse_def)
  have z: "max_reasons \<le> 0 \<longrightarrow> reasons = [fallback_reason]"
    by (simp add: r' select_reasons_nonpos)
  show ?thesis
    using a gate_lengths [of c] pf gate_names [of c] hi m d st t l f e z
    by (intro conjI) assumption+
qed

text \<open>
  Claim C10. For every input and every integer \<open>max_reasons\<close>, the list of reasons is
  not empty: whenever the truncated list of candidates is empty the fallback message
  is substituted, in particular for every \<open>max_reasons \<le> 0\<close>, gates fired or not.
\<close>

theorem reasons_never_empty:
  "burnout_reasons (calculate_burnout_risk mood stress sleep energy cfg max_reasons debug) \<noteq> []
   \<and> (take (nat (max 0 max_reasons))
          (sort_reverse (gate_candidates (burnout_components mood stress sleep energy cfg))) = []
        \<longrightarrow> burnout_reasons (calculate_burnout_risk mood stress sleep energy cfg max_reasons debug)
              = [fallback_reason])
   \<and> (max_reasons \<le> 0
        \<longrightarrow> burnout_reasons (calculate_burnout_risk mood stress sleep energy cfg max_reasons debug)
              = [fallback_reason])"
  by (simp add: reasons_of_result select_reasons_nonempty select_reasons_fallback
      select_reasons_nonpos)


lemma candidates_stress_sleep:
  "gate_candidates (burnout_components [5] [8] [5] [10] DEFAULT_CFG) =
     [(''stress'', 36 / 10, ''High average stress over the past week.''),
      (''sleep'', 12 / 10, ''Significant sleep deficit compared to the 8-hour target.'')]"
  by (simp add: eval_components)

lemma candidates_stress_only:
  "gate_candidates (burnout_components [5] [8] [8] [10] DEFAULT_CFG) =
     [(''stress'', 36 / 10, ''High average stress over the past week.'')]"
  by (simp add: eval_components)

text \<open>
  Claim C1, the amended statement at a concrete input: stress and sleep fire, the
  stress term 3.6 is ahead of the sleep term 1.2, and \<open>max_reasons = 1\<close> keeps the
  stress message only.
\<close>

theorem reason_selection_witness:
  "burnout_reasons (calculate_burnout_risk [5] [8] [5] [10] DEFAULT_CFG 1 False)
     = [''High average stress over the past week.'']
   \<and> int (length (burnout_reasons (calculate_burnout_risk [5] [8] [5] [10] DEFAULT_CFG 1 False)))
       \<le> 1
   \<and> fallback_reason
       \<notin> set (burnout_reasons (calculate_burnout_risk [5] [8] [5] [10] DEFAULT_CFG 1 False))"
proof -
  have pos: "(0::int) < 1" by simp
  have ne: "gate_candidates (burnout_components [5] [8] [5] [10] DEFAULT_CFG) \<noteq> []"
    by (simp add: candidates_stress_sleep)
  have srt: "map cand_message (take (nat 1)
               (sort_reverse (gate_candidates (burnout_components [5] [8] [5] [10] DEFAULT_CFG))))
             = [''High average stress over the past week.'']"
    by (simp add: candidates_stress_sleep sort_reverse_def cand_contribution_def
        cand_message_def)
  note t = reason_selection [OF refl refl refl, of "[5]" "[8]" "[5]" "[10]" DEFAULT_CFG 1 False]
  from t pos ne have eq:
    "burnout_reasons (calculate_burnout_risk [5] [8] [5] [10] DEFAULT_CFG 1 False)
       = map cand_message (take (nat 1)
           (sort_reverse (gate_candidates (burnout_components [5] [8] [5] [10] DEFAULT_CFG))))"
    by blast
  from t pos have len:
    "int (length (burnout_reasons (calculate_burnout_risk [5] [8] [5] [10] DEFAULT_CFG 1 False)))
       \<le> 1"
    by blast
  from t pos ne have fb:
    "fallback_reason
       \<notin> set (burnout_reasons (calculate_burnout_risk [5] [8] [5] [10] DEFAULT_CFG 1 False))"
    by blast
  show ?thesis
    using eq len fb by (simp only: srt simp_thms)
qed

text \<open>
  Claim C1 as stated fails at \<open>max_reasons = 0\<close> with average stress 8: the stress gate
  fires, yet the list is the fallback message alone, so it is longer than
  \<open>max_reasons\<close> and the fallback is emitted although a gate fired.
\<close>

theorem reasons_cap_counterexample:
  "\<not> int (length (burnout_reasons (calculate_burnout_risk [5] [8] [8] [10] DEFAULT_CFG 0 False)))
       \<le> 0
   \<and> \<not> (fallback_reason
           \<in> set (burnout_reasons (calculate_burnout_risk [5] [8] [8] [10] DEFAULT_CFG 0 False))
         \<longleftrightarrow> gate_candidates (burnout_components [5] [8] [8] [10] DEFAULT_CFG) = [])"
  by (simp add: reasons_of_result select_reasons_nonpos candidates_stress_only)

text \<open>
  Claim C10 at a concrete input: the stress gate fires, and with \<open>max_reasons\<close> 0 or
  \<open>- 2\<close> the result is the fallback message.
\<close>

theorem reasons_never_empty_witness:
  "gate_candidates (burnout_components [5] [8] [8] [10] DEFAULT_CFG) \<noteq> []
   \<and> burnout_reasons (calculate_burnout_risk [5] [8] [8] [10] DEFAULT_CFG 0 False)
       = [fallback_reason]
   \<and> burnout_reasons (calculate_burnout_risk [5] [8] [8] [10] DEFAULT_CFG (- 2) False)
       = [fallback_reason]"
proof -
  have "(0::int) \<le> 0" "(- 2::int) \<le> 0" by simp_all
  then show ?thesis
    using reasons_never_empty [of "[5]" "[8]" "[8]" "[10]" DEFAULT_CFG 0 False]
      reasons_never_empty [of "[5]" "[8]" "[8]" "[10]" DEFAULT_CFG "- 2" False]
    by (simp add: candidates_stress_only)
qed

section \<open>Stress accumulation: the recurrence\<close>

lemma accumulation_loop_length:
  "length (accumulation_loop d p ss curve) = length curve + length ss"
  by (induction ss arbitrary: p curve) (simp_all add: Let_def)

lemma accumulation_loop_prefix:
  "i < length curve \<Longrightarrow> accumulation_loop d p ss curve ! i = curve ! i"
  by (induction ss arbitrary: p curve) (simp_all add: Let_def nth_append)

lemma accumulation_loop_first:
  "ss \<noteq> [] \<Longrightarrow> accumulation_loop d p ss curve ! length curve = d * p + hd ss"
proof (cases ss)
  case Nil
  then show "ss \<noteq> [] \<Longrightarrow> ?thesis" by simp
next
  case (Cons s rest)
  have "accumulation_loop d (d * p + s) rest (curve @ [d * p + s]) ! length curve
          = (curve @ [d * p + s]) ! length curve"
    by (rule accumulation_loop_prefix) simp
  then show ?thesis
    using Cons by (simp add: Let_def)
qed

lemma accumulation_loop_step:
  assumes "curve \<noteq> [] \<longrightarrow> last curve = p"
    and "curve = [] \<longrightarrow> p = 0"
    and "0 < length curve + i" and "i < length ss"
  shows "accumulation_loop d p ss curve ! (length curve + i)
           = d * accumulation_loop d p ss curve ! (length curve + i - 1) + ss ! i"
  using assms
proof (induction ss arbitrary: p curve i)
  case Nil
  then show ?case by simp
next
  case (Cons s rest)
  let ?p = "d * p + s"
  let ?c = "curve @ [?p]"
  show ?case
  proof (cases i)
    case 0
    with Cons.prems have ne: "curve \<noteq> []" by simp
    then have lst: "last curve = p" using Cons.prems by simp
    have a: "accumulation_loop d ?p rest ?c ! length curve = ?p"
      using accumulation_loop_prefix [of "length curve" ?c d ?p rest] by simp
    have b: "accumulation_loop d ?p rest ?c ! (length curve - 1) = last curve"
      using accumulation_loop_prefix [of "length curve - 1" ?c d ?p rest] ne
      by (simp add: nth_append last_conv_nth)
    show ?thesis
      using 0 a b lst by (simp add: Let_def)
  next
    case (Suc j)
    have "accumulation_loop d ?p rest ?c ! (length ?c + j)
            = d * accumulation_loop d ?p rest ?c ! (length ?c + j - 1) + rest ! j"
      using Cons.prems Suc by (intro Cons.IH) simp_all
    then show ?thesis
      using Suc by (simp add: Let_def)
  qed
qed

lemma curve_recurrence:
  assumes "curve = accumulation_loop d 0 stress []"
  shows "length curve = length stress"
    and "stress \<noteq> [] \<longrightarrow> curve ! 0 = stress ! 0"
    and "\<forall>i. 0 < i \<and> i < length stress \<longrightarrow> curve ! i = d * curve ! (i - 1) + stress ! i"
proof -
  show "length curve = length stress"
    by (simp add: assms accumulation_loop_length)
  show "stress \<noteq> [] \<longrightarrow> curve ! 0 = stress ! 0"
    using accumulation_loop_first [of stress d 0 "[]"]
    by (simp add: assms hd_conv_nth)
  show "\<forall>i. 0 < i \<and> i < length stress \<longrightarrow> curve ! i = d * curve ! (i - 1) + stress ! i"
    using accumulation_loop_step [of "[]" 0 _ stress d] by (simp add: assms)
qed


lemma round_half_even_of_int: "round_half_even (of_int k) = k"
  by (simp add: round_half_even_def)

lemma py_round_zero: "py_round 0 n = 0"
  using round_half_even_of_int [of 0] by (simp add: py_round_def)

lemma clamp_decay_cases:
  "0 \<le> clamp x 0 (99 / 100) \<and> clamp x 0 (99 / 100) \<le> 99 / 100
   \<and> (0 \<le> x \<and> x \<le> 99 / 100 \<longrightarrow> clamp x 0 (99 / 100) = x)
   \<and> (99 / 100 \<le> x \<longrightarrow> clamp x 0 (99 / 100) = 99 / 100)
   \<and> (x \<le> 0 \<longrightarrow> clamp x 0 (99 / 100) = 0)"
  by (simp add: clamp_def max_def min_def)

lemma unit_stress_curve:
  "accumulation_loop (8 / 10) 0 [1, 1, 1, 1] [] = [1, 18 / 10, 244 / 100, 2952 / 1000]"
  by (simp add: Let_def)

lemma round_unit_stress_curve:
  "map (\<lambda>x. py_round x 3) [1, 18 / 10, 244 / 100, 2952 / 1000]
     = [1, 18 / 10, 244 / 100, 2952 / 1000]"
  by (simp add: py_round_def round_half_even_def Let_def)

text \<open>
  Claim C3. \<^verbatim>\<open>calculate_stress_accumulation\<close> computes the curve \<open>A\<close> with
  \<open>A[0] = stress[0]\<close> and \<open>A[i] = decay * A[i-1] + stress[i]\<close> for \<open>i > 0\<close>, where
  \<open>decay\<close> is the configured decay factor clamped to \<open>[0, 0.99]\<close> whatever the
  configured value is; the output holds the curve rounded to 3 decimals, the rounded
  slope of the curve and the rounded last value. For an empty series the curve is
  empty and slope and latest value are 0. With decay 0.8 and stress \<open>[1, 1, 1, 1]\<close>
  the rounded curve is \<open>[1.0, 1.8, 2.44, 2.952]\<close>.
\<close>

theorem stress_accumulation_recurrence:
  assumes d: "decay = clamp (stress_decay cfg) 0 (99 / 100)"
    and A: "A = accumulation_loop decay 0 stress []"
    and r: "r = calculate_stress_accumulation stress cfg"
  shows
    "0 \<le> decay \<and> decay \<le> 99 / 100
     \<and> (0 \<le> stress_decay cfg \<and> stress_decay cfg \<le> 99 / 100 \<longrightarrow> decay = stress_decay cfg)
     \<and> (99 / 100 \<le> stress_decay cfg \<longrightarrow> decay = 99 / 100)
     \<and> (stress_decay cfg \<le> 0 \<longrightarrow> decay = 0)
     \<and> length A = length stress
     \<and> (stress \<noteq> [] \<longrightarrow> A ! 0 = stress ! 0)
     \<and> (\<forall>i. 0 < i \<and> i < length stress \<longrightarrow> A ! i = decay * A ! (i - 1) + stress ! i)
     \<and> accumulation_curve r = map (\<lambda>x. py_round x 3) A
     \<and> accumulation_trend_slope r = py_round (linear_trend_slope A) 4
     \<and> latest_accumulation r = (if stress = [] then 0 else py_round (last A) 3)
     \<and> (stress = [] \<longrightarrow>
          accumulation_curve r = [] \<and> accumulation_trend_slope r = 0
          \<and> latest_accumulation r = 0)
     \<and> (stress_decay cfg = 8 / 10 \<longrightarrow>
          accumulation_curve (calculate_stress_accumulation [1, 1, 1, 1] cfg)
            = [1, 18 / 10, 244 / 100, 2952 / 1000])"
proof -
  note rec = curve_recurrence [OF A]
  have ne: "A = [] \<longleftrightarrow> stress = []"
    using rec(1) by (metis length_0_conv)
  have c: "accumulation_curve r = map (\<lambda>x. py_round x 3) A"
    by (simp add: r A d calculate_stress_accumulation_def Let_def)
  have s: "accumulation_trend_slope r = py_round (linear_trend_slope A) 4"
    by (simp add: r A d calculate_stress_accumulation_def Let_def)
  have l: "latest_accumulation r = (if stress = [] then 0 else py_round (last A) 3)"
    using ne by (simp add: r A d calculate_stress_accumulation_def Let_def)
  have e: "stress = [] \<longrightarrow>
          accumulation_curve r = [] \<and> accumulation_trend_slope r = 0
          \<and> latest_accumulation r = 0"
    by (simp add: r calculate_stress_accumulation_def Let_def linear_trend_slope_def
        py_round_zero)
  have x: "stress_decay cfg = 8 / 10 \<longrightarrow>
          accumulation_curve (calculate_stress_accumulation [1, 1, 1, 1] cfg)
            = [1, 18 / 10, 244 / 100, 2952 / 1000]"
  proof
    assume "stress_decay cfg = 8 / 10"
    then have "clamp (stress_decay cfg) 0 (99 / 100) = 8 / 10"
      by (simp add: clamp_def)
    then show "accumulation_curve (calculate_stress_accumulation [1, 1, 1, 1] cfg)
            = [1, 18 / 10, 244 / 100, 2952 / 1000]"
      by (simp only: calculate_stress_accumulation_def Let_def unit_stress_curve
          round_unit_stress_curve accumulation_result.simps)
  qed
  show ?thesis
    using clamp_decay_cases [of "stress_decay cfg"] rec c s l e x
    unfolding d [symmetric]
    by (intro conjI) (assumption | simp)+
qed

text \<open>
  Claim C3 at concrete inputs: the default configuration (decay 0.8) on
  \<open>[1, 1, 1, 1]\<close> and on the empty series, and a configured decay of 5 capped at 0.99.
\<close>

theorem stress_accumulation_recurrence_witness:
  "accumulation_curve (calculate_stress_accumulation [1, 1, 1, 1] DEFAULT_CFG)
     = [1, 18 / 10, 244 / 100, 2952 / 1000]
   \<and> accumulation_curve (calculate_stress_accumulation [] DEFAULT_CFG) = []
   \<and> accumulation_trend_slope (calculate_stress_accumulation [] DEFAULT_CFG) = 0
   \<and> latest_accumulation (calculate_stress_accumulation [] DEFAULT_CFG) = 0
   \<and> clamp (stress_decay (DEFAULT_CFG \<lparr> stress_decay := 5 \<rparr>)) 0 (99 / 100) = 99 / 100"
proof -
  have dc: "stress_decay DEFAULT_CFG = 8 / 10"
    by (simp add: DEFAULT_CFG_def)
  have big: "99 / 100 \<le> stress_decay (DEFAULT_CFG \<lparr> stress_decay := 5 \<rparr>)"
    by simp
  note t1 = stress_accumulation_recurrence [OF refl refl refl, of DEFAULT_CFG "[]"]
  note t2 = stress_accumulation_recurrence [OF refl refl refl,
      of "DEFAULT_CFG \<lparr> stress_decay := 5 \<rparr>" "[]"]
  from t1 dc have a: "accumulation_curve (calculate_stress_accumulation [1, 1, 1, 1] DEFAULT_CFG)
     = [1, 18 / 10, 244 / 100, 2952 / 1000]"
    by blast
  from t1 have b: "accumulation_curve (calculate_stress_accumulation [] DEFAULT_CFG) = []
   \<and> accumulation_trend_slope (calculate_stress_accumulation [] DEFAULT_CFG) = 0
   \<and> latest_accumulation (calculate_stress_accumulation [] DEFAULT_CFG) = 0"
    by blast
  from t2 big have c: "clamp (stress_decay (DEFAULT_CFG \<lparr> stress_decay := 5 \<rparr>)) 0 (99 / 100) = 99 / 100"
    by blast
  show ?thesis using a b c by blast
qed

section \<open>Rounding keeps integer bounds\<close>



section \<open>Volatility\<close>

lemma volatility_fields:
  "mood_std (calculate_volatility mood cfg) = py_round (stddev mood) 4"
  "mood_jump (calculate_volatility mood cfg) = py_round (avg_abs_delta mood) 4"
  "volatility_score (calculate_volatility mood cfg) =
     py_round (vol_w_std cfg * normalize_0_100 (stddev mood) (mood_std_min cfg) (mood_std_max cfg)
               + vol_w_jump cfg
                 * normalize_0_100 (avg_abs_delta mood) (mood_jump_min cfg) (mood_jump_max cfg)) 2"
  by (simp_all add: calculate_volatility_def Let_def)

lemma stddev_0_10: "stddev [0, 10] = 5"
proof -
  have "sqrt 25 = 5" by (rule real_sqrt_unique) simp_all
  then show ?thesis by (simp add: stddev_def mean_def Let_def)
qed

lemma jump_0_10: "avg_abs_delta [0, 10] = 10"
  by (simp add: avg_abs_delta_def)

text \<open>
  Claim C6. The docstring of \<^verbatim>\<open>calculate_volatility\<close> announces a score from 0 to 100,
  and the claim says the score lies in that range for every input. The function
  neither clamps the weighted sum nor checks the weights of the configuration it is
  given: with \<open>vol_w_jump = 2\<close> (and the default \<open>vol_w_std = 0.6\<close>) the series
  \<open>[0, 10]\<close>, whose two normalized components are both 100, scores 260. Under the
  default weights the same series scores 100.
\<close>

theorem volatility_score_exceeds_100:
  "volatility_score (calculate_volatility [0, 10] (DEFAULT_CFG \<lparr> vol_w_jump := 2 \<rparr>)) = 260
   \<and> \<not> volatility_score (calculate_volatility [0, 10] (DEFAULT_CFG \<lparr> vol_w_jump := 2 \<rparr>))
         \<le> 100
   \<and> volatility_score (calculate_volatility [0, 10] DEFAULT_CFG) = 100"
proof -
  have a: "volatility_score (calculate_volatility [0, 10] (DEFAULT_CFG \<lparr> vol_w_jump := 2 \<rparr>)) = 260"
    by (simp add: volatility_fields stddev_0_10 jump_0_10 DEFAULT_CFG_def normalize_0_100_def
        clamp_def py_round_def round_half_even_def)
  have b: "volatility_score (calculate_volatility [0, 10] DEFAULT_CFG) = 100"
    by (simp add: volatility_fields stddev_0_10 jump_0_10 DEFAULT_CFG_def normalize_0_100_def
        clamp_def py_round_def round_half_even_def)
  show ?thesis using a b by simp
qed

section \<open>Emotional battery\<close>






section \<open>The report\<close>

lemma generate_report_value:
  "generate_report data cfg =
     (case (data ''mood'', data ''stress'', data ''sleep'', data ''energy'') of
        (Some mood, Some stress, Some sleep, Some energy) \<Rightarrow>
          Inr \<lparr> metrics =
                  \<lparr> volatility = calculate_volatility mood cfg,
                    stress_accumulation = calculate_stress_accumulation stress cfg,
                    burnout_risk = calculate_burnout_risk mood stress sleep energy cfg 3 False,
                    emotional_battery = calculate_emotional_battery stress energy \<rparr>,
                disclaimer = ''Wellness insights only. Not medical diagnosis.'' \<rparr>
      | _ \<Rightarrow> Inl KeyError)"
  by (simp add: generate_report_def lookup_def Let_def split: option.splits)

section \<open>The endpoint\<close>

lemma jumps_loop_sum:
  "jumps_loop moods = sum_list (map (\<lambda>i. \<bar>moods ! i - moods ! (i - 1)\<bar>) [1 ..< length moods])"
proof -
  have "fold (\<lambda>i jumps. jumps + f i) is a = a + sum_list (map f is)" for f :: "nat \<Rightarrow> real" and "is" a
    by (induction "is" arbitrary: a) simp_all
  then show ?thesis by (simp add: jumps_loop_def)
qed

lemma api_accumulation_loop_engine:
  "api_accumulation_loop p logs (map (\<lambda>x. py_round x 2) curve)
     = map (\<lambda>x. py_round x 2)
         (accumulation_loop (8 / 10) p (map (\<lambda>l. real_of_int (log_stress l)) logs) curve)"
proof (induction logs arbitrary: p curve)
  case Nil
  then show ?case by simp
next
  case (Cons l logs)
  let ?p = "8 / 10 * p + real_of_int (log_stress l)"
  have "api_accumulation_loop ?p logs (map (\<lambda>x. py_round x 2) (curve @ [?p]))
          = map (\<lambda>x. py_round x 2)
              (accumulation_loop (8 / 10) ?p (map (\<lambda>l. real_of_int (log_stress l)) logs)
                 (curve @ [?p]))"
    by (rule Cons.IH)
  then show ?case by (simp add: Let_def)
qed


text \<open>
  Claim C4 (amended). For every request that the endpoint accepts (at least two logs,
  a registered user) \<^verbatim>\<open>calculate_metrics\<close> returns metrics computed by its own
  formulas from the four series of the request, not by \<^verbatim>\<open>generate_report\<close>. It uses
  the same statistics as the engine's primitives: its volatility is
  \<open>min(100, 15 * stddev(mood) + 10 * avg_abs_delta(mood))\<close>; its stress accumulation is
  the engine's unrounded decay-0.8 curve rounded to 2 decimals, where the engine rounds
  to 3; its burnout value is
  \<open>min(100, 8 * mean(stress) + 20 * max(0, 8 - mean(sleep)) / 8 + 20 * (10 - mean(energy)) / 10)\<close>;
  its battery is \<open>min(100, 5 * mean(energy) + 5 * mean(sleep) + 2 * mood[-1])\<close>.
\<close>

theorem endpoint_own_formulas:
  assumes len: "2 \<le> length (req_logs req)"
    and reg: "find (\<lambda>u. user_email u = req_email req) (users db) \<noteq> None"
    and m: "moods = map (\<lambda>l. real_of_int (log_mood l)) (req_logs req)"
    and s: "stresses = map (\<lambda>l. real_of_int (log_stress l)) (req_logs req)"
    and sl: "sleeps = map log_sleep (req_logs req)"
    and e: "energies = map (\<lambda>l. real_of_int (log_energy l)) (req_logs req)"
  shows
    "\<exists>resp db'.
       calculate_metrics req db = Inr (resp, db')
       \<and> volatilityScore resp = min 100 (stddev moods * 15 + avg_abs_delta moods * 10)
       \<and> stressAccumulation resp
           = map (\<lambda>x. py_round x 2) (accumulation_loop (8 / 10) 0 stresses [])
       \<and> accumulation_curve (calculate_stress_accumulation stresses DEFAULT_CFG)
           = map (\<lambda>x. py_round x 3) (accumulation_loop (8 / 10) 0 stresses [])
       \<and> burnoutLikelihood resp
           = min 100 (mean stresses * 8 + max 0 (8 - mean sleeps) / 8 * 20
                      + (10 - mean energies) / 10 * 20)
       \<and> emotionalBattery resp
           = min 100 (mean energies * 5 + mean sleeps * 5 + last moods * 2)
       \<and> db' = save_logs (req_email req) (req_logs req) db"
proof -
  from len have ne: "req_logs req \<noteq> []" by auto
  have len2: "\<not> length (req_logs req) < 2" using len by simp
  have lm: "last moods = real_of_int (log_mood (last (req_logs req)))"
    using ne by (simp add: m last_map)
  have sd: "stddev moods
      = sqrt (sum_list (map (\<lambda>x. (x - sum_list moods / real (length moods)) ^ 2) moods)
              / real (length moods))"
    using ne by (simp add: stddev_def mean_def m Let_def)
  have aj: "avg_abs_delta moods = jumps_loop moods / real (length moods - 1)"
    using len by (simp add: avg_abs_delta_def jumps_loop_sum m)
  have means: "mean stresses = sum_list stresses / real (length (req_logs req))"
    "mean sleeps = sum_list sleeps / real (length (req_logs req))"
    "mean energies = sum_list energies / real (length (req_logs req))"
    using ne by (simp_all add: mean_def s sl e)
  have acc: "api_accumulation_loop 0 (req_logs req) []
      = map (\<lambda>x. py_round x 2) (accumulation_loop (8 / 10) 0 stresses [])"
    using api_accumulation_loop_engine [of 0 "req_logs req" "[]"] by (simp add: s)
  have eng: "accumulation_curve (calculate_stress_accumulation stresses DEFAULT_CFG)
           = map (\<lambda>x. py_round x 3) (accumulation_loop (8 / 10) 0 stresses [])"
    by (simp add: calculate_stress_accumulation_def Let_def DEFAULT_CFG_def clamp_def)
  have lenm: "length moods = length (req_logs req)"
    by (simp add: m)
  show ?thesis
    using len2 reg eng
    by (simp add: calculate_metrics_def Let_def sd aj means acc lm lenm
        m [symmetric] s [symmetric] sl [symmetric] e [symmetric])
qed


lemma example_series:
  "map (\<lambda>l. real_of_int (log_mood l)) (req_logs example_request) = [4, 6, 4, 6]"
  "map (\<lambda>l. real_of_int (log_stress l)) (req_logs example_request) = [1, 1, 1, 1]"
  "map log_sleep (req_logs example_request) = [8, 8, 8, 8]"
  "map (\<lambda>l. real_of_int (log_energy l)) (req_logs example_request) = [5, 5, 5, 5]"
  by (simp_all add: example_request_def example_log_def)

lemma example_stats:
  "stddev [4, 6, 4, 6] = 1" "avg_abs_delta [4, 6, 4, 6] = 2"
  "linear_trend_slope [4, 6, 4, 6] = 4 / 10"
  "mean [1, 1, 1, 1] = 1" "mean [8, 8, 8, 8] = 8" "mean [5, 5, 5, 5] = 5"
  by (simp_all add: stddev_def avg_abs_delta_def linear_trend_slope_def mean_def Let_def
      upt_rec [of 1] nth_Cons')

lemma example_registered:
  "find (\<lambda>u. user_email u = req_email example_request) (users example_database) \<noteq> None"
  by (simp add: example_request_def example_database_def)

lemma example_length: "2 \<le> length (req_logs example_request)"
  by (simp add: example_request_def)

lemma example_endpoint:
  "calculate_metrics example_request example_database =
     Inr (\<lparr> volatilityScore = 35,
             stressAccumulation = [1, 18 / 10, 244 / 100, 295 / 100],
             burnoutLikelihood = 18,
             riskLevel = ''STABLE'',
             emotionalBattery = 77,
             loveStressBalance = 100 \<rparr>,
          save_logs ''a@b.c'' (req_logs example_request) example_database)"
proof -
  have logs: "req_logs example_request
      = [example_log 1 4, example_log 2 6, example_log 3 4, example_log 4 6]"
    "req_email example_request = ''a@b.c''"
    by (simp_all add: example_request_def)
  have sq: "sqrt ((1 + 1 + 1 + 1) / 4) = 1" by simp
  show ?thesis
    using example_registered
    by (simp add: calculate_metrics_def Let_def logs example_log_def jumps_loop_def
        upt_rec [of 1] py_round_def round_half_even_def)
qed


lemma example_series_map:
  "request_series example_request =
     [''mood'' \<mapsto> [4, 6, 4, 6], ''stress'' \<mapsto> [1, 1, 1, 1], ''sleep'' \<mapsto> [8, 8, 8, 8],
      ''energy'' \<mapsto> [5, 5, 5, 5]]"
  by (simp add: request_series_def example_series)

lemma example_engine_battery: "calculate_emotional_battery [1, 1, 1, 1] [5, 5, 5, 5] = 74"
  by (simp add: calculate_emotional_battery_def Let_def example_stats clamp_def
      py_round_def round_half_even_def)

lemma example_engine_volatility:
  "volatility_score (calculate_volatility [4, 6, 4, 6] DEFAULT_CFG) = 3714 / 100"
  by (simp add: volatility_fields example_stats DEFAULT_CFG_def normalize_0_100_def clamp_def
      py_round_def round_half_even_def)

lemma example_engine_curve:
  "accumulation_curve (calculate_stress_accumulation [1, 1, 1, 1] DEFAULT_CFG)
     = [1, 18 / 10, 244 / 100, 2952 / 1000]"
  by (simp add: calculate_stress_accumulation_def Let_def DEFAULT_CFG_def clamp_def
      py_round_def round_half_even_def)

lemma example_engine_burnout:
  "burnout_risk_score
     (calculate_burnout_risk [4, 6, 4, 6] [1, 1, 1, 1] [8, 8, 8, 8] [5, 5, 5, 5] DEFAULT_CFG 3 False)
     = 1075 / 100"
  by (simp add: calculate_burnout_risk_def burnout_components_def Let_def example_stats
      DEFAULT_CFG_def normalize_0_100_def clamp_def py_round_def round_half_even_def)

text \<open>
  Claim C4 as stated fails. On the example request the endpoint answers volatility 35,
  curve \<open>[1, 1.8, 2.44, 2.95]\<close>, burnout 18 and battery 77, where the engine on the
  same four series gives 37.14, \<open>[1, 1.8, 2.44, 2.952]\<close>, 10.75 and 74.
\<close>

theorem endpoint_serializes_engine_counterexample:
  "length (req_logs example_request) = 4
   \<and> calculate_metrics example_request example_database =
       Inr (\<lparr> volatilityScore = 35,
               stressAccumulation = [1, 18 / 10, 244 / 100, 295 / 100],
               burnoutLikelihood = 18,
               riskLevel = ''STABLE'',
               emotionalBattery = 77,
               loveStressBalance = 100 \<rparr>,
            save_logs ''a@b.c'' (req_logs example_request) example_database)
   \<and> map_sum id (\<lambda>rep. (volatility_score (volatility (metrics rep)),
                          accumulation_curve (stress_accumulation (metrics rep)),
                          burnout_risk_score (burnout_risk (metrics rep)),
                          emotional_battery (metrics rep)))
        (generate_report (request_series example_request) DEFAULT_CFG)
       = Inr (3714 / 100, [1, 18 / 10, 244 / 100, 2952 / 1000], 1075 / 100, 74)
   \<and> \<not> endpoint_serializes_engine example_request example_database"
proof -
  have a: "length (req_logs example_request) = 4"
    by (simp add: example_request_def)
  have b: "map_sum id (\<lambda>rep. (volatility_score (volatility (metrics rep)),
                          accumulation_curve (stress_accumulation (metrics rep)),
                          burnout_risk_score (burnout_risk (metrics rep)),
                          emotional_battery (metrics rep)))
        (generate_report (request_series example_request) DEFAULT_CFG)
       = Inr (3714 / 100, [1, 18 / 10, 244 / 100, 2952 / 1000], 1075 / 100, 74)"
    by (simp add: generate_report_value example_series_map example_engine_battery
        example_engine_volatility example_engine_curve example_engine_burnout)
  have c: "\<not> endpoint_serializes_engine example_request example_database"
    by (simp add: endpoint_serializes_engine_def example_endpoint generate_report_value
        example_series_map example_engine_battery)
  show ?thesis
    using a b c example_endpoint by simp
qed

text \<open>
  Claim C4, the amended statement on the example request.
\<close>

theorem endpoint_own_formulas_witness:
  "\<exists>resp db'.
     calculate_metrics example_request example_database = Inr (resp, db')
     \<and> volatilityScore resp = min 100 (stddev [4, 6, 4, 6] * 15 + avg_abs_delta [4, 6, 4, 6] * 10)
     \<and> stressAccumulation resp
         = map (\<lambda>x. py_round x 2) (accumulation_loop (8 / 10) 0 [1, 1, 1, 1] [])
     \<and> emotionalBattery resp = min 100 (mean [5, 5, 5, 5] * 5 + mean [8, 8, 8, 8] * 5 + 6 * 2)"
  using endpoint_own_formulas [OF example_length example_registered refl refl refl refl]
  by (simp add: example_series) blast

end
